theory Spec2Isabelle
  imports Complex_Main
begin

section \<open>Data model of the dashboard (client/src/components/Dashboard.tsx)\<close>

text \<open>
  JavaScript numbers are only stored and copied by the dashboard's handlers, never
  computed with; they are modelled as rationals. A JavaScript string is a \<open>string\<close>;
  a value that may be \<open>undefined\<close> (an optional field) or \<open>null\<close> is an \<open>option\<close>,
  and a field that may be absent, \<open>null\<close> or a string is an \<open>option\<close> of an \<open>option\<close>.
\<close>

type_synonym number = rat

datatype ProbeMethod = Delete | Reaction

text \<open>
  Modelled from the spec: the type \<open>Platform\<close> is imported from \<open>../App\<close>, whose source is
  not available; section 3 of the specification gives it as the enumeration
  \<open>whatsapp | signal\<close>.
\<close>

datatype Platform = Whatsapp | Signal

text \<open>
  \<open>TrackerData.threshold\<close> is declared a number, but the handler stores
  \<open>data.threshold\<close> into it unchecked, so it holds \<open>undefined\<close> (\<open>None\<close>) when the
  event carries no threshold.
\<close>

record TrackerData =
  rtt :: number
  avg :: number
  median :: number
  threshold :: "number option"
  state :: string
  timestamp :: number

record DeviceInfo =
  jid :: string
  state :: string
  rtt :: number
  avg :: number

record ContactInfo =
  jid :: string
  displayNumber :: string
  contactName :: string
  data :: "TrackerData list"
  devices :: "DeviceInfo list"
  deviceCount :: number
  presence :: "string option"
  profilePic :: "string option"
  platform :: Platform

text \<open>
  The payload of a \<open>tracker-update\<close> event (\<open>update: any\<close> in the source). Every field
  may be absent; \<open>presence\<close> may also be \<open>null\<close>.
\<close>

record TrackerUpdate =
  jid :: "string option"
  presence :: "string option option"
  deviceCount :: "number option"
  devices :: "DeviceInfo list option"
  median :: "number option"
  threshold :: "number option"

subsection \<open>The JavaScript \<open>Map\<close>\<close>

text \<open>
  A JavaScript \<open>Map\<close> keeps its entries in insertion order, one entry for each key.
  It is modelled as an association list: \<open>set\<close> replaces the value of a key in place
  or adds a new entry at the end, \<open>delete\<close> drops the entry, \<open>get\<close> gives
  \<open>undefined\<close> (\<open>None\<close>) for a key that is not there.
\<close>

type_synonym ('k, 'v) js_map = "('k \<times> 'v) list"

fun map_get :: "'k \<Rightarrow> ('k, 'v) js_map \<Rightarrow> 'v option" where
  "map_get k [] = None"
| "map_get k ((k', v') # m) = (if k' = k then Some v' else map_get k m)"

definition map_has :: "'k \<Rightarrow> ('k, 'v) js_map \<Rightarrow> bool" where
  "map_has k m = (map_get k m \<noteq> None)"

fun map_set :: "'k \<Rightarrow> 'v \<Rightarrow> ('k, 'v) js_map \<Rightarrow> ('k, 'v) js_map" where
  "map_set k v [] = [(k, v)]"
| "map_set k v ((k', v') # m) =
     (if k' = k then (k', v) # m else (k', v') # map_set k v m)"

fun map_delete :: "'k \<Rightarrow> ('k, 'v) js_map \<Rightarrow> ('k, 'v) js_map" where
  "map_delete k [] = []"
| "map_delete k ((k', v') # m) =
     (if k' = k then map_delete k m else (k', v') # map_delete k m)"

subsection \<open>String operations used by the handlers\<close>

fun startsWith :: "string \<Rightarrow> string \<Rightarrow> bool" where
  "startsWith s [] = True"
| "startsWith [] (p # ps) = False"
| "startsWith (c # cs) (p # ps) = (c = p \<and> startsWith cs ps)"

text \<open>\<open>s.includes(sub)\<close>: \<open>sub\<close> occurs in \<open>s\<close> as a contiguous substring.\<close>

fun str_includes :: "string \<Rightarrow> string \<Rightarrow> bool" where
  "str_includes [] sub = (sub = [])"
| "str_includes (c # cs) sub = (startsWith (c # cs) sub \<or> str_includes cs sub)"

text \<open>\<open>s.replace(pat, rep)\<close> with a string pattern: the first occurrence only.\<close>

fun replace :: "string \<Rightarrow> string \<Rightarrow> string \<Rightarrow> string" where
  "replace [] pat rep = (if pat = [] then rep else [])"
| "replace (c # cs) pat rep =
     (if startsWith (c # cs) pat then rep @ drop (length pat) (c # cs)
      else c # replace cs pat rep)"

text \<open>\<open>s.split(sep)[0]\<close> for a one-character separator: the part before its first occurrence.\<close>

definition split_first :: "string \<Rightarrow> char \<Rightarrow> string" where
  "split_first s sep = takeWhile (\<lambda>c. c \<noteq> sep) s"

text \<open>\<open>xs.find(p)\<close>: the first element satisfying \<open>p\<close>, or \<open>undefined\<close>.\<close>

fun find_first :: "('a \<Rightarrow> bool) \<Rightarrow> 'a list \<Rightarrow> 'a option" where
  "find_first p [] = None"
| "find_first p (x # xs) = (if p x then Some x else find_first p xs)"

subsection \<open>The component's state\<close>

record Dashboard =
  inputNumber :: string
  selectedPlatform :: Platform
  contacts :: "(string, ContactInfo) js_map"
  error :: "string option"
  privacyMode :: bool
  probeMethod :: ProbeMethod
  showConnections :: bool
  newContact :: string

section \<open>The socket event handlers\<close>

text \<open>
  Each handler is a function from the state before to the state after. \<open>Date.now()\<close> is
  the parameter \<open>now\<close>. \<open>new Map(prev)\<close> copies the map, so the handler's \<open>next\<close> starts
  as \<open>contacts s\<close>.
\<close>

text \<open>
  The object literal \<open>newDataPoint\<close> of \<open>onTrackerUpdate\<close>; \<open>d0\<close> is \<open>data.devices[0]\<close>,
  which exists because the literal is built only when \<open>data.devices.length > 0\<close>.
  \<open>a || b\<close> on strings is \<open>b\<close> when \<open>a\<close> is \<open>undefined\<close> or empty.
\<close>

definition newDataPoint ::
  "number \<Rightarrow> number \<Rightarrow> number option \<Rightarrow> DeviceInfo \<Rightarrow> DeviceInfo list \<Rightarrow> TrackerData" where
  "newDataPoint now m thr d0 ds =
     \<lparr> TrackerData.rtt = DeviceInfo.rtt d0,
       TrackerData.avg = DeviceInfo.avg d0,
       TrackerData.median = m,
       TrackerData.threshold = thr,
       TrackerData.state =
         (case find_first (\<lambda>d. str_includes (DeviceInfo.state d) ''Online'') ds of
            Some d \<Rightarrow> if DeviceInfo.state d \<noteq> [] then DeviceInfo.state d else DeviceInfo.state d0
          | None \<Rightarrow> DeviceInfo.state d0),
       TrackerData.timestamp = now \<rparr>"

text \<open>The body of \<open>if (contact) { ... }\<close>: the updated copy of the contact.\<close>

definition updatedContact :: "number \<Rightarrow> TrackerUpdate \<Rightarrow> ContactInfo \<Rightarrow> ContactInfo" where
  "updatedContact now u contact =
     (let c1 = (case TrackerUpdate.presence u of
                  Some p \<Rightarrow> contact\<lparr>ContactInfo.presence := p\<rparr>
                | None \<Rightarrow> contact);
          c2 = (case TrackerUpdate.deviceCount u of
                  Some n \<Rightarrow> c1\<lparr>ContactInfo.deviceCount := n\<rparr>
                | None \<Rightarrow> c1);
          c3 = (case TrackerUpdate.devices u of
                  Some ds \<Rightarrow> c2\<lparr>ContactInfo.devices := ds\<rparr>
                | None \<Rightarrow> c2)
      in (case TrackerUpdate.median u of
            None \<Rightarrow> c3
          | Some m \<Rightarrow>
              (case TrackerUpdate.devices u of
                 None \<Rightarrow> c3
               | Some [] \<Rightarrow> c3
               | Some (d0 # rest) \<Rightarrow>
                   c3\<lparr>ContactInfo.data :=
                        ContactInfo.data c3 @
                        [newDataPoint now m (TrackerUpdate.threshold u) d0 (d0 # rest)]\<rparr>)))"

text \<open>\<open>if (!jid) return\<close>: a missing jid and the empty string are both falsy.\<close>

definition onTrackerUpdate :: "number \<Rightarrow> TrackerUpdate \<Rightarrow> Dashboard \<Rightarrow> Dashboard" where
  "onTrackerUpdate now u s =
     (case TrackerUpdate.jid u of
        None \<Rightarrow> s
      | Some j \<Rightarrow>
          if j = [] then s
          else (case map_get j (contacts s) of
                  Some contact \<Rightarrow>
                    s\<lparr>contacts := map_set j (updatedContact now u contact) (contacts s)\<rparr>
                | None \<Rightarrow> s))"

definition onProfilePic :: "string \<Rightarrow> string option \<Rightarrow> Dashboard \<Rightarrow> Dashboard" where
  "onProfilePic j url s =
     (case map_get j (contacts s) of
        Some contact \<Rightarrow>
          s\<lparr>contacts := map_set j (contact\<lparr>profilePic := url\<rparr>) (contacts s)\<rparr>
      | None \<Rightarrow> s)"

definition onContactName :: "string \<Rightarrow> string \<Rightarrow> Dashboard \<Rightarrow> Dashboard" where
  "onContactName j name s =
     (case map_get j (contacts s) of
        Some contact \<Rightarrow>
          s\<lparr>contacts := map_set j (contact\<lparr>contactName := name\<rparr>) (contacts s)\<rparr>
      | None \<Rightarrow> s)"

text \<open>A contact entry as both \<open>onContactAdded\<close> and \<open>onTrackedContacts\<close> write it.\<close>

definition onContactAdded :: "string \<Rightarrow> string \<Rightarrow> Platform option \<Rightarrow> Dashboard \<Rightarrow> Dashboard" where
  "onContactAdded j num plat s =
     s\<lparr>contacts :=
         map_set j
           \<lparr> ContactInfo.jid = j, displayNumber = num, contactName = num, data = [],
             ContactInfo.devices = [], ContactInfo.deviceCount = 0,
             ContactInfo.presence = None, profilePic = None,
             platform = (case plat of Some p \<Rightarrow> p | None \<Rightarrow> Whatsapp) \<rparr>
           (contacts s),
       inputNumber := [],
       newContact := []\<rparr>"

definition onContactRemoved :: "string \<Rightarrow> Dashboard \<Rightarrow> Dashboard" where
  "onContactRemoved j s = s\<lparr>contacts := map_delete j (contacts s)\<rparr>"

text \<open>
  \<open>onError\<close> sets the message and schedules \<open>setError(null)\<close> 3000 ms later. The timer is
  real time and not part of the state; its callback is \<open>onErrorTimeout\<close>.
\<close>

definition onError :: "string option \<Rightarrow> string \<Rightarrow> Dashboard \<Rightarrow> Dashboard" where
  "onError j message s = s\<lparr>error := Some message\<rparr>"

definition onErrorTimeout :: "Dashboard \<Rightarrow> Dashboard" where
  "onErrorTimeout s = s\<lparr>error := None\<rparr>"

definition onProbeMethod :: "ProbeMethod \<Rightarrow> Dashboard \<Rightarrow> Dashboard" where
  "onProbeMethod method s = s\<lparr>probeMethod := method\<rparr>"

text \<open>The display number \<open>onTrackedContacts\<close> extracts from an id.\<close>

definition displayNumberOf :: "string \<Rightarrow> Platform \<Rightarrow> string" where
  "displayNumberOf ident plat =
     (if plat = Signal then replace ident ''signal:'' [] else split_first ident CHR ''@'')"

text \<open>The \<open>forEach\<close> loop of \<open>onTrackedContacts\<close> over the map \<open>next\<close>.\<close>

fun trackedContactsLoop ::
  "(string \<times> Platform) list \<Rightarrow> (string, ContactInfo) js_map \<Rightarrow> (string, ContactInfo) js_map" where
  "trackedContactsLoop [] next = next"
| "trackedContactsLoop ((ident, plat) # rest) next =
     trackedContactsLoop rest
       (if \<not> map_has ident next
        then map_set ident
               \<lparr> ContactInfo.jid = ident, displayNumber = displayNumberOf ident plat,
                 contactName = displayNumberOf ident plat, data = [],
                 ContactInfo.devices = [], ContactInfo.deviceCount = 0,
                 ContactInfo.presence = None, profilePic = None, platform = plat \<rparr>
               next
        else next)"

definition onTrackedContacts :: "(string \<times> Platform) list \<Rightarrow> Dashboard \<Rightarrow> Dashboard" where
  "onTrackedContacts cs s = s\<lparr>contacts := trackedContactsLoop cs (contacts s)\<rparr>"

subsection \<open>The events and their dispatch\<close>

datatype Event =
    TrackerUpdateEv TrackerUpdate
  | ProfilePicEv string "string option"
  | ContactNameEv string string
  | ContactAddedEv string string "Platform option"
  | ContactRemovedEv string
  | ErrorEv "string option" string
  | ProbeMethodEv ProbeMethod
  | TrackedContactsEv "(string \<times> Platform) list"

fun applyEvent :: "number \<Rightarrow> Event \<Rightarrow> Dashboard \<Rightarrow> Dashboard" where
  "applyEvent now (TrackerUpdateEv u) s = onTrackerUpdate now u s"
| "applyEvent now (ProfilePicEv j url) s = onProfilePic j url s"
| "applyEvent now (ContactNameEv j name) s = onContactName j name s"
| "applyEvent now (ContactAddedEv j num plat) s = onContactAdded j num plat s"
| "applyEvent now (ContactRemovedEv j) s = onContactRemoved j s"
| "applyEvent now (ErrorEv j message) s = onError j message s"
| "applyEvent now (ProbeMethodEv method) s = onProbeMethod method s"
| "applyEvent now (TrackedContactsEv cs) s = onTrackedContacts cs s"

section \<open>The RTT tracker's statistics\<close>

text \<open>
  Modelled from the spec: the RTT tracker and its \<open>currentStats()\<close> are server code that
  is not among the available sources. Section 4.3 of the specification gives
  \<open>currentStats() \<rightarrow> {avg, median}\<close> over a device's current window of samples: the
  median of an even-length window is the mean of the two middle values after ascending
  sort, and an empty window yields "no data" (\<open>None\<close>) rather than a numeric default.
  For an odd-length window the median is the middle value of the sorted window.
\<close>

record Stats =
  avg :: number
  median :: number

definition medianOf :: "number list \<Rightarrow> number" where
  "medianOf window =
     (let sorted_w = sort window; n = length sorted_w
      in if even n then (sorted_w ! (n div 2 - 1) + sorted_w ! (n div 2)) / 2
         else sorted_w ! (n div 2))"

definition currentStats :: "number list \<Rightarrow> Stats option" where
  "currentStats window =
     (if window = [] then None
      else Some \<lparr> Stats.avg = sum_list window / of_nat (length window),
                  Stats.median = medianOf window \<rparr>)"

section \<open>The bootstrap script (src/scripts/init-signal.ts)\<close>

text \<open>
  \<open>execSync\<close> either returns or throws; what a command does is given by the environment
  \<open>env\<close>, a function from the command line to its outcome. The script runs a command
  line at most once, so one outcome for each is enough. The result of the script is the
  exit status of the process and the command lines it ran, in order. Console output is
  left out. \<open>hostVolPath\<close> is \<open>path.join(os.homedir(), '.local', 'share', 'signal-api')\<close>,
  which depends on the machine and is a parameter.
\<close>

datatype outcome = Returned | Threw

definition CONTAINER_NAME :: string where
  "CONTAINER_NAME = ''signal-api''"

definition IMAGE_NAME :: string where
  "IMAGE_NAME = ''bbernhard/signal-cli-rest-api''"

definition PORT :: string where
  "PORT = ''8080''"

definition containerVolPath :: string where
  "containerVolPath = ''/home/.local/share/signal-cli''"

definition docker_info :: string where
  "docker_info = ''docker info''"

definition docker_inspect :: string where
  "docker_inspect = ''docker inspect '' @ CONTAINER_NAME"

definition docker_start :: string where
  "docker_start = ''docker start '' @ CONTAINER_NAME"

definition cmd :: "string \<Rightarrow> string" where
  "cmd hostVolPath =
     ''docker run -d --name '' @ CONTAINER_NAME @ '' -p '' @ PORT @ '':'' @ PORT @
     '' -v '' @ [CHR 0x22] @ hostVolPath @ '':'' @ containerVolPath @ [CHR 0x22] @
     '' -e MODE=json-rpc '' @ IMAGE_NAME"

text \<open>
  Step 2, the inner \<open>try\<close> block: inspect the container and, when that returns, start it.
  A throw of either command leaves the block.
\<close>

definition inspectAndStart :: "(string \<Rightarrow> outcome) \<Rightarrow> outcome \<times> string list" where
  "inspectAndStart env =
     (case env docker_inspect of
        Threw \<Rightarrow> (Threw, [docker_inspect])
      | Returned \<Rightarrow> (env docker_start, [docker_inspect, docker_start]))"

text \<open>Steps 2 and 3: the inner \<open>try\<close> with its \<open>catch\<close>, which creates the container.\<close>

definition startOrCreate :: "string \<Rightarrow> (string \<Rightarrow> outcome) \<Rightarrow> outcome \<times> string list" where
  "startOrCreate hostVolPath env =
     (case inspectAndStart env of
        (Returned, cmds) \<Rightarrow> (Returned, cmds)
      | (Threw, cmds) \<Rightarrow> (env (cmd hostVolPath), cmds @ [cmd hostVolPath]))"

text \<open>
  The whole script. \<open>process.exit(0)\<close> in the handler of step 1 ends the process at
  once; a throw out of steps 2 and 3 reaches the outer handler, which exits with 1;
  running off the end of the script exits with 0.
\<close>

definition init_signal :: "string \<Rightarrow> (string \<Rightarrow> outcome) \<Rightarrow> nat \<times> string list" where
  "init_signal hostVolPath env =
     (case env docker_info of
        Threw \<Rightarrow> (0, [docker_info])
      | Returned \<Rightarrow>
          (case startOrCreate hostVolPath env of
             (Returned, cmds) \<Rightarrow> (0, docker_info # cmds)
           | (Threw, cmds) \<Rightarrow> (1, docker_info # cmds)))"

section \<open>Example inputs\<close>

definition alice :: ContactInfo where
  "alice =
     \<lparr> ContactInfo.jid = ''4915112345@s.whatsapp.net'', displayNumber = ''4915112345'',
       contactName = ''Alice'', data = [], ContactInfo.devices = [],
       ContactInfo.deviceCount = 0, ContactInfo.presence = None, profilePic = None,
       platform = Whatsapp \<rparr>"

definition bob :: ContactInfo where
  "bob =
     \<lparr> ContactInfo.jid = ''signal:+4917012345'', displayNumber = ''+4917012345'',
       contactName = ''Bob'', data = [], ContactInfo.devices = [],
       ContactInfo.deviceCount = 0, ContactInfo.presence = Some ''available'',
       profilePic = Some ''https://example.org/bob.png'', platform = Signal \<rparr>"

definition twoContacts :: Dashboard where
  "twoContacts =
     \<lparr> inputNumber = [], selectedPlatform = Whatsapp,
       contacts = [(''4915112345@s.whatsapp.net'', alice), (''signal:+4917012345'', bob)],
       error = None, privacyMode = False, probeMethod = Delete, showConnections = False,
       newContact = [] \<rparr>"

definition updateForCarol :: TrackerUpdate where
  "updateForCarol =
     \<lparr> TrackerUpdate.jid = Some ''4916099999@s.whatsapp.net'',
       TrackerUpdate.presence = Some (Some ''available''),
       TrackerUpdate.deviceCount = Some 2, TrackerUpdate.devices = None,
       TrackerUpdate.median = None, TrackerUpdate.threshold = None \<rparr>"

definition phone :: DeviceInfo where
  "phone = \<lparr> DeviceInfo.jid = ''4915112345:0@s.whatsapp.net'', DeviceInfo.state = ''Offline'',
             DeviceInfo.rtt = 4100, DeviceInfo.avg = 3900 \<rparr>"

definition laptop :: DeviceInfo where
  "laptop = \<lparr> DeviceInfo.jid = ''4915112345:7@s.whatsapp.net'', DeviceInfo.state = ''Online'',
              DeviceInfo.rtt = 180, DeviceInfo.avg = 210 \<rparr>"

definition updateForAlice :: TrackerUpdate where
  "updateForAlice =
     \<lparr> TrackerUpdate.jid = Some ''4915112345@s.whatsapp.net'',
       TrackerUpdate.presence = Some (Some ''available''),
       TrackerUpdate.deviceCount = None, TrackerUpdate.devices = Some [phone, laptop],
       TrackerUpdate.median = Some 200, TrackerUpdate.threshold = Some 450 \<rparr>"

text \<open>An update for Alice that carries a median but an empty devices list.\<close>

definition presenceForAlice :: TrackerUpdate where
  "presenceForAlice =
     \<lparr> TrackerUpdate.jid = Some ''4915112345@s.whatsapp.net'',
       TrackerUpdate.presence = Some None,
       TrackerUpdate.deviceCount = Some 2, TrackerUpdate.devices = Some [],
       TrackerUpdate.median = Some 200, TrackerUpdate.threshold = None \<rparr>"

text \<open>A \<open>tracked-contacts\<close> reply naming Alice, who is known, and a new Signal contact.\<close>

definition bootstrapReply :: "(string \<times> Platform) list" where
  "bootstrapReply = [(''4915112345@s.whatsapp.net'', Whatsapp), (''signal:+4917099999'', Signal)]"

definition dave :: ContactInfo where
  "dave =
     \<lparr> ContactInfo.jid = ''signal:+4917099999'', displayNumber = ''+4917099999'',
       contactName = ''+4917099999'', data = [], ContactInfo.devices = [],
       ContactInfo.deviceCount = 0, ContactInfo.presence = None, profilePic = None,
       platform = Signal \<rparr>"

text \<open>Two environments of the bootstrap script: no Docker, and Docker that cannot create.\<close>

definition noDocker :: "string \<Rightarrow> outcome" where
  "noDocker c = Threw"

definition createFails :: "string \<Rightarrow> outcome" where
  "createFails c = (if c = docker_info then Returned else Threw)"

section \<open>Facts about the map operations\<close>

lemma map_get_map_set:
  "map_get k' (map_set k v m) = (if k' = k then Some v else map_get k' m)"
  by (induction m) auto

lemma map_keys_map_set: "map_get k m = Some c \<Longrightarrow> map fst (map_set k v m) = map fst m"
  by (induction m) (auto split: if_splits)

lemma map_set_absent: "map_get k m = None \<Longrightarrow> map_set k v m = m @ [(k, v)]"
  by (induction m) (auto split: if_splits)

lemma map_delete_absent: "map_get k m = None \<Longrightarrow> map_delete k m = m"
  by (induction m) (auto split: if_splits)

lemma map_delete_append: "map_delete k (m @ m') = map_delete k m @ map_delete k m'"
  by (induction m) auto

lemma map_get_map_delete:
  "map_get k' (map_delete k m) = (if k' = k then None else map_get k' m)"
  by (induction m) auto

lemma map_set_map_set: "map_set k v (map_set k w m) = map_set k v m"
  by (induction m) auto

lemma map_delete_idem: "map_delete k (map_delete k m) = map_delete k m"
  by (simp add: map_delete_absent map_get_map_delete)

lemma map_get_append:
  "map_get k (m @ m') = (case map_get k m of Some v \<Rightarrow> Some v | None \<Rightarrow> map_get k m')"
  by (induction m) auto

section \<open>Properties of the dashboard's handlers\<close>

text \<open>
  C7. An \<open>error\<close> event never changes the contacts map, whether or not it carries the
  jid of a tracked contact: the handler only sets the error message. The callback of
  the timer it starts, which clears the message again, does not touch the map either.
\<close>

theorem onError_keeps_contacts:
  "contacts (applyEvent now (ErrorEv j message) s) = contacts s \<and>
   contacts (onErrorTimeout (applyEvent now (ErrorEv j message) s)) = contacts s"
  by (simp add: onError_def onErrorTimeout_def)

text \<open>
  C9. A \<open>tracker-update\<close> whose jid is missing, or whose jid is not a key of the contacts
  map, changes nothing: the state after the handler is the state before it, so no entry
  is created and none is modified.
\<close>

theorem onTrackerUpdate_unknown_jid:
  "TrackerUpdate.jid u = None \<or>
   (\<exists>j. TrackerUpdate.jid u = Some j \<and> map_get j (contacts s) = None)
   \<Longrightarrow> onTrackerUpdate now u s = s"
  by (auto simp: onTrackerUpdate_def)

theorem onTrackerUpdate_unknown_jid_witness:
  "(TrackerUpdate.jid updateForCarol = None \<or>
    (\<exists>j. TrackerUpdate.jid updateForCarol = Some j \<and> map_get j (contacts twoContacts) = None))
   \<and> onTrackerUpdate 1700000000000 updateForCarol twoContacts = twoContacts"
proof -
  have h: "TrackerUpdate.jid updateForCarol = None \<or>
    (\<exists>j. TrackerUpdate.jid updateForCarol = Some j \<and> map_get j (contacts twoContacts) = None)"
    by (simp add: updateForCarol_def twoContacts_def)
  show ?thesis
    using h onTrackerUpdate_unknown_jid [OF h, of 1700000000000] by simp
qed

text \<open>
  C3. For a jid that is not in the contacts map, \<open>contact-added\<close> followed by
  \<open>contact-removed\<close> for that jid gives back the contacts map as it was before the add,
  entry for entry and in the same order.
\<close>

theorem add_then_remove_restores_contacts:
  "map_get j (contacts s) = None \<Longrightarrow>
   contacts (applyEvent now' (ContactRemovedEv j) (applyEvent now (ContactAddedEv j num plat) s))
     = contacts s"
  by (simp add: onContactRemoved_def onContactAdded_def map_set_absent map_delete_append
      map_delete_absent)

theorem add_then_remove_restores_contacts_witness:
  "map_get ''4916099999@s.whatsapp.net'' (contacts twoContacts) = None \<and>
   contacts (applyEvent 2 (ContactRemovedEv ''4916099999@s.whatsapp.net'')
      (applyEvent 1 (ContactAddedEv ''4916099999@s.whatsapp.net'' ''4916099999'' (Some Whatsapp))
         twoContacts))
     = contacts twoContacts"
proof -
  have h: "map_get ''4916099999@s.whatsapp.net'' (contacts twoContacts) = None"
    by (simp add: twoContacts_def)
  show ?thesis
    using h add_then_remove_restores_contacts [OF h, of 2 1 "''4916099999''" "Some Whatsapp"]
    by simp
qed

subsection \<open>Tracker updates for a known contact\<close>

lemma updatedContact_fields:
  "ContactInfo.presence (updatedContact now u c) =
     (case TrackerUpdate.presence u of Some p \<Rightarrow> p | None \<Rightarrow> ContactInfo.presence c)"
  "ContactInfo.deviceCount (updatedContact now u c) =
     (case TrackerUpdate.deviceCount u of Some n \<Rightarrow> n | None \<Rightarrow> ContactInfo.deviceCount c)"
  "ContactInfo.devices (updatedContact now u c) =
     (case TrackerUpdate.devices u of Some ds \<Rightarrow> ds | None \<Rightarrow> ContactInfo.devices c)"
  "ContactInfo.jid (updatedContact now u c) = ContactInfo.jid c"
  "displayNumber (updatedContact now u c) = displayNumber c"
  "contactName (updatedContact now u c) = contactName c"
  "profilePic (updatedContact now u c) = profilePic c"
  "platform (updatedContact now u c) = platform c"
  by (simp_all add: updatedContact_def Let_def split: option.splits list.splits)

lemma onTrackerUpdate_known:
  "TrackerUpdate.jid u = Some j \<Longrightarrow> j \<noteq> [] \<Longrightarrow> map_get j (contacts s) = Some c \<Longrightarrow>
   onTrackerUpdate now u s = s\<lparr>contacts := map_set j (updatedContact now u c) (contacts s)\<rparr>"
  by (simp add: onTrackerUpdate_def)

text \<open>
  C1. The handler applies a \<open>tracker-update\<close> to a contact when the event's jid is
  truthy (the test \<open>if (!jid) return\<close> lets it through, so it is not the empty string)
  and is a key of the contacts map. For every such event, the contact stored under that
  jid has each of \<open>presence\<close>, \<open>deviceCount\<close> and \<open>devices\<close> replaced by the event's value
  when the event carries the field and kept when it does not; its \<open>jid\<close>,
  \<open>displayNumber\<close>, \<open>contactName\<close>, \<open>profilePic\<close> and \<open>platform\<close> are kept; every other
  contact is kept, and so is the order of the map.
\<close>

theorem onTrackerUpdate_partial_update:
  assumes "TrackerUpdate.jid u = Some j" and "j \<noteq> []" and "map_get j (contacts s) = Some c"
  shows "\<exists>c'. map_get j (contacts (onTrackerUpdate now u s)) = Some c' \<and>
     ContactInfo.presence c' =
       (case TrackerUpdate.presence u of Some p \<Rightarrow> p | None \<Rightarrow> ContactInfo.presence c) \<and>
     ContactInfo.deviceCount c' =
       (case TrackerUpdate.deviceCount u of Some n \<Rightarrow> n | None \<Rightarrow> ContactInfo.deviceCount c) \<and>
     ContactInfo.devices c' =
       (case TrackerUpdate.devices u of Some ds \<Rightarrow> ds | None \<Rightarrow> ContactInfo.devices c) \<and>
     ContactInfo.jid c' = ContactInfo.jid c \<and> displayNumber c' = displayNumber c \<and>
     contactName c' = contactName c \<and> profilePic c' = profilePic c \<and>
     platform c' = platform c \<and>
     (\<forall>k. k \<noteq> j \<longrightarrow>
        map_get k (contacts (onTrackerUpdate now u s)) = map_get k (contacts s)) \<and>
     map fst (contacts (onTrackerUpdate now u s)) = map fst (contacts s)"
proof -
  have step: "contacts (onTrackerUpdate now u s) = map_set j (updatedContact now u c) (contacts s)"
    using assms by (simp add: onTrackerUpdate_known)
  have here: "map_get j (contacts (onTrackerUpdate now u s)) = Some (updatedContact now u c)"
    by (simp add: step map_get_map_set)
  have others: "\<forall>k. k \<noteq> j \<longrightarrow>
      map_get k (contacts (onTrackerUpdate now u s)) = map_get k (contacts s)"
    by (simp add: step map_get_map_set)
  have keys: "map fst (contacts (onTrackerUpdate now u s)) = map fst (contacts s)"
    using assms(3) by (simp add: step map_keys_map_set)
  from here others keys show ?thesis
    by (simp add: updatedContact_fields)
qed

theorem onTrackerUpdate_partial_update_witness:
  "TrackerUpdate.jid updateForAlice = Some ''4915112345@s.whatsapp.net'' \<and>
   ''4915112345@s.whatsapp.net'' \<noteq> [] \<and>
   map_get ''4915112345@s.whatsapp.net'' (contacts twoContacts) = Some alice \<and>
   (\<exists>c'. map_get ''4915112345@s.whatsapp.net''
            (contacts (onTrackerUpdate 1700000000000 updateForAlice twoContacts)) = Some c' \<and>
      ContactInfo.presence c' = Some ''available'' \<and>
      ContactInfo.deviceCount c' = 0 \<and>
      ContactInfo.devices c' = [phone, laptop] \<and>
      contactName c' = ''Alice'') \<and>
   map_get ''signal:+4917012345''
     (contacts (onTrackerUpdate 1700000000000 updateForAlice twoContacts)) = Some bob"
proof -
  have h1: "TrackerUpdate.jid updateForAlice = Some ''4915112345@s.whatsapp.net''"
    by (simp add: updateForAlice_def)
  have h2: "''4915112345@s.whatsapp.net'' \<noteq> []"
    by simp
  have h3: "map_get ''4915112345@s.whatsapp.net'' (contacts twoContacts) = Some alice"
    by (simp add: twoContacts_def)
  have u: "TrackerUpdate.presence updateForAlice = Some (Some ''available'')"
    "TrackerUpdate.deviceCount updateForAlice = None"
    "TrackerUpdate.devices updateForAlice = Some [phone, laptop]"
    by (simp_all add: updateForAlice_def)
  have a: "ContactInfo.deviceCount alice = 0" "contactName alice = ''Alice''"
    by (simp_all add: alice_def)
  have b: "map_get ''signal:+4917012345'' (contacts twoContacts) = Some bob"
    by (simp add: twoContacts_def)
  from onTrackerUpdate_partial_update [OF h1 h2 h3, of 1700000000000]
  obtain c' where
    "map_get ''4915112345@s.whatsapp.net''
       (contacts (onTrackerUpdate 1700000000000 updateForAlice twoContacts)) = Some c'"
    "ContactInfo.presence c' = Some ''available''"
    "ContactInfo.deviceCount c' = 0"
    "ContactInfo.devices c' = [phone, laptop]"
    "contactName c' = ''Alice''"
    and rest: "\<forall>k. k \<noteq> ''4915112345@s.whatsapp.net'' \<longrightarrow>
      map_get k (contacts (onTrackerUpdate 1700000000000 updateForAlice twoContacts))
        = map_get k (contacts twoContacts)"
    unfolding u a by auto
  moreover have "map_get ''signal:+4917012345''
     (contacts (onTrackerUpdate 1700000000000 updateForAlice twoContacts)) = Some bob"
    using rest b by simp
  ultimately show ?thesis
    using h1 h2 h3 by blast
qed

subsection \<open>The state of a chart point\<close>

lemma find_first_Some: "find_first p xs = Some x \<Longrightarrow> x \<in> set xs \<and> p x"
  by (induction xs) (auto split: if_splits)

lemma find_first_None: "find_first p xs = None \<Longrightarrow> \<forall>x\<in>set xs. \<not> p x"
  by (induction xs) (auto split: if_splits)

lemma newDataPoint_state:
  "TrackerData.state (newDataPoint now m thr d0 ds) =
     (case find_first (\<lambda>d. str_includes (DeviceInfo.state d) ''Online'') ds of
        Some d \<Rightarrow> DeviceInfo.state d | None \<Rightarrow> DeviceInfo.state d0)"
  by (auto simp: newDataPoint_def split: option.splits dest!: find_first_Some)

lemma newDataPoint_Offline_Online:
  assumes "DeviceInfo.state ` set ds = {''Offline'', ''Online''}"
  shows "TrackerData.state (newDataPoint now m thr d0 ds) = ''Online''"
proof (cases "find_first (\<lambda>d. str_includes (DeviceInfo.state d) ''Online'') ds")
  case None
  have "''Online'' \<in> DeviceInfo.state ` set ds"
    unfolding assms by simp
  then obtain d where "d \<in> set ds" and "DeviceInfo.state d = ''Online''"
    by (auto simp: image_iff)
  with find_first_None [OF None] have False by auto
  then show ?thesis ..
next
  case (Some d)
  have "d \<in> set ds" and inc: "str_includes (DeviceInfo.state d) ''Online''"
    using find_first_Some [OF Some] by simp_all
  then have "DeviceInfo.state d \<in> {''Offline'', ''Online''}"
    unfolding assms [symmetric] by (rule_tac imageI)
  then have "DeviceInfo.state d = ''Offline'' \<or> DeviceInfo.state d = ''Online''"
    by simp
  with inc have "DeviceInfo.state d = ''Online''" by auto
  with Some show ?thesis by (simp add: newDataPoint_state)
qed

text \<open>
  C5. A \<open>tracker-update\<close> for a known contact that carries a median and a non-empty
  devices list appends one point to the contact's chart data. The state of that point
  is the state of the first device whose state contains \<open>Online\<close> when there is such a
  device, and the state of the first listed device otherwise. In particular, when the
  states of the devices are exactly \<open>Offline\<close> and \<open>Online\<close>, in whatever order, the
  point's state is \<open>Online\<close>.
\<close>

theorem chart_point_state:
  assumes "TrackerUpdate.jid u = Some j" and "j \<noteq> []" and "map_get j (contacts s) = Some c"
    and "TrackerUpdate.median u = Some m" and "TrackerUpdate.devices u = Some ds" and "ds \<noteq> []"
  shows "\<exists>c' p. map_get j (contacts (onTrackerUpdate now u s)) = Some c' \<and>
     data c' = data c @ [p] \<and>
     TrackerData.state p =
       (case find_first (\<lambda>d. str_includes (DeviceInfo.state d) ''Online'') ds of
          Some d \<Rightarrow> DeviceInfo.state d | None \<Rightarrow> DeviceInfo.state (hd ds)) \<and>
     (DeviceInfo.state ` set ds = {''Offline'', ''Online''} \<longrightarrow> TrackerData.state p = ''Online'')"
proof -
  from assms(6) obtain d0 rest where ds: "ds = d0 # rest" by (cases ds) auto
  then have d0: "d0 = hd ds" by simp
  let ?p = "newDataPoint now m (TrackerUpdate.threshold u) d0 ds"
  have here: "map_get j (contacts (onTrackerUpdate now u s)) = Some (updatedContact now u c)"
    using assms(1-3) by (simp add: onTrackerUpdate_known map_get_map_set)
  have grows: "data (updatedContact now u c) = data c @ [?p]"
    using assms(4,5) ds by (simp add: updatedContact_def Let_def split: option.splits)
  have st: "TrackerData.state ?p =
       (case find_first (\<lambda>d. str_includes (DeviceInfo.state d) ''Online'') ds of
          Some d \<Rightarrow> DeviceInfo.state d | None \<Rightarrow> DeviceInfo.state (hd ds))"
    unfolding d0 by (rule newDataPoint_state)
  have on: "DeviceInfo.state ` set ds = {''Offline'', ''Online''} \<longrightarrow>
      TrackerData.state ?p = ''Online''"
    by (simp add: newDataPoint_Offline_Online)
  show ?thesis
    using here grows st on by (intro exI conjI)
qed

theorem chart_point_state_witness:
  "TrackerUpdate.jid updateForAlice = Some ''4915112345@s.whatsapp.net'' \<and>
   ''4915112345@s.whatsapp.net'' \<noteq> [] \<and>
   map_get ''4915112345@s.whatsapp.net'' (contacts twoContacts) = Some alice \<and>
   TrackerUpdate.median updateForAlice = Some 200 \<and>
   TrackerUpdate.devices updateForAlice = Some [phone, laptop] \<and>
   [phone, laptop] \<noteq> [] \<and>
   (\<exists>c' p. map_get ''4915112345@s.whatsapp.net''
            (contacts (onTrackerUpdate 1700000000000 updateForAlice twoContacts)) = Some c' \<and>
      data c' = data alice @ [p] \<and> TrackerData.state p = ''Online'')"
proof -
  have h1: "TrackerUpdate.jid updateForAlice = Some ''4915112345@s.whatsapp.net''"
    by (simp add: updateForAlice_def)
  have h2: "''4915112345@s.whatsapp.net'' \<noteq> []"
    by simp
  have h3: "map_get ''4915112345@s.whatsapp.net'' (contacts twoContacts) = Some alice"
    by (simp add: twoContacts_def)
  have h4: "TrackerUpdate.median updateForAlice = Some 200"
    by (simp add: updateForAlice_def)
  have h5: "TrackerUpdate.devices updateForAlice = Some [phone, laptop]"
    by (simp add: updateForAlice_def)
  have h6: "[phone, laptop] \<noteq> []"
    by simp
  have states: "DeviceInfo.state ` set [phone, laptop] = {''Offline'', ''Online''}"
    by (simp add: phone_def laptop_def)
  from chart_point_state [OF h1 h2 h3 h4 h5 h6, of 1700000000000] states
  have "\<exists>c' p. map_get ''4915112345@s.whatsapp.net''
            (contacts (onTrackerUpdate 1700000000000 updateForAlice twoContacts)) = Some c' \<and>
      data c' = data alice @ [p] \<and> TrackerData.state p = ''Online''"
    by blast
  with h1 h2 h3 h4 h5 h6 show ?thesis
    by (intro conjI)
qed

subsection \<open>Names and profile pictures\<close>

text \<open>
  C6. A \<open>contact-name\<close> or \<open>profile-pic\<close> event whose jid is not in the contacts map leaves
  the whole state as it is. When the jid is in the map, the contact stored under it
  becomes the same contact with \<open>contactName\<close> (respectively \<open>profilePic\<close>) set to the
  given value; every other contact and the order of the map are kept.
\<close>

theorem name_and_picture_updates:
  "(map_get j (contacts s) = None \<longrightarrow>
      applyEvent now (ContactNameEv j name) s = s \<and> applyEvent now (ProfilePicEv j url) s = s) \<and>
   (map_get j (contacts s) = Some c \<longrightarrow>
      map_get j (contacts (applyEvent now (ContactNameEv j name) s))
        = Some (c\<lparr>contactName := name\<rparr>) \<and>
      (\<forall>k. k \<noteq> j \<longrightarrow>
         map_get k (contacts (applyEvent now (ContactNameEv j name) s)) = map_get k (contacts s)) \<and>
      map fst (contacts (applyEvent now (ContactNameEv j name) s)) = map fst (contacts s) \<and>
      map_get j (contacts (applyEvent now (ProfilePicEv j url) s))
        = Some (c\<lparr>profilePic := url\<rparr>) \<and>
      (\<forall>k. k \<noteq> j \<longrightarrow>
         map_get k (contacts (applyEvent now (ProfilePicEv j url) s)) = map_get k (contacts s)) \<and>
      map fst (contacts (applyEvent now (ProfilePicEv j url) s)) = map fst (contacts s))"
  by (simp add: onContactName_def onProfilePic_def map_get_map_set map_keys_map_set)

theorem name_and_picture_updates_witness:
  "map_get ''4916099999@s.whatsapp.net'' (contacts twoContacts) = None \<and>
   applyEvent 1 (ContactNameEv ''4916099999@s.whatsapp.net'' ''Carol'') twoContacts = twoContacts \<and>
   applyEvent 1 (ProfilePicEv ''4916099999@s.whatsapp.net'' None) twoContacts = twoContacts \<and>
   map_get ''signal:+4917012345'' (contacts twoContacts) = Some bob \<and>
   map_get ''signal:+4917012345''
     (contacts (applyEvent 1 (ContactNameEv ''signal:+4917012345'' ''Robert'') twoContacts))
     = Some (bob\<lparr>contactName := ''Robert''\<rparr>) \<and>
   map_get ''signal:+4917012345''
     (contacts (applyEvent 1 (ProfilePicEv ''signal:+4917012345'' None) twoContacts))
     = Some (bob\<lparr>profilePic := None\<rparr>) \<and>
   map_get ''4915112345@s.whatsapp.net''
     (contacts (applyEvent 1 (ContactNameEv ''signal:+4917012345'' ''Robert'') twoContacts))
     = Some alice"
proof -
  have absent: "map_get ''4916099999@s.whatsapp.net'' (contacts twoContacts) = None"
    by (simp add: twoContacts_def)
  have present: "map_get ''signal:+4917012345'' (contacts twoContacts) = Some bob"
    by (simp add: twoContacts_def)
  have other: "map_get ''4915112345@s.whatsapp.net'' (contacts twoContacts) = Some alice"
    by (simp add: twoContacts_def)
  have ne: "''4915112345@s.whatsapp.net'' \<noteq> ''signal:+4917012345''"
    by simp
  note dropped = name_and_picture_updates
    [of "''4916099999@s.whatsapp.net''" twoContacts 1 "''Carol''" None bob]
  note applied = name_and_picture_updates
    [of "''signal:+4917012345''" twoContacts 1 "''Robert''" None bob]
  from dropped absent
  have d: "applyEvent 1 (ContactNameEv ''4916099999@s.whatsapp.net'' ''Carol'') twoContacts
        = twoContacts"
    "applyEvent 1 (ProfilePicEv ''4916099999@s.whatsapp.net'' None) twoContacts = twoContacts"
    by blast+
  from applied present
  have a: "map_get ''signal:+4917012345''
     (contacts (applyEvent 1 (ContactNameEv ''signal:+4917012345'' ''Robert'') twoContacts))
     = Some (bob\<lparr>contactName := ''Robert''\<rparr>)"
    "map_get ''signal:+4917012345''
     (contacts (applyEvent 1 (ProfilePicEv ''signal:+4917012345'' None) twoContacts))
     = Some (bob\<lparr>profilePic := None\<rparr>)"
    "\<forall>k. k \<noteq> ''signal:+4917012345'' \<longrightarrow>
         map_get k (contacts (applyEvent 1 (ContactNameEv ''signal:+4917012345'' ''Robert'') twoContacts))
           = map_get k (contacts twoContacts)"
    by blast+
  from a(3) ne other
  have o: "map_get ''4915112345@s.whatsapp.net''
     (contacts (applyEvent 1 (ContactNameEv ''signal:+4917012345'' ''Robert'') twoContacts))
     = Some alice"
    by metis
  from absent present d a(1,2) o show ?thesis
    by (intro conjI)
qed

subsection \<open>New contact entries\<close>

lemma trackedContactsLoop_keeps:
  "map_get k m = Some c \<Longrightarrow> map_get k (trackedContactsLoop cs m) = Some c"
proof (induction cs arbitrary: m)
  case Nil
  then show ?case by simp
next
  case (Cons x cs)
  obtain ident plat where x: "x = (ident, plat)" by (cases x)
  show ?case
  proof (cases "map_has ident m")
    case True
    with Cons x show ?thesis by simp
  next
    case False
    with Cons.prems have "k \<noteq> ident" by (auto simp: map_has_def)
    with Cons x False show ?thesis by (simp add: map_get_map_set)
  qed
qed

lemma trackedContactsLoop_new:
  "map_get k m = None \<Longrightarrow> map_get k (trackedContactsLoop cs m) = Some c \<Longrightarrow>
   ContactInfo.jid c = k \<and> contactName c = displayNumber c \<and> data c = [] \<and>
   ContactInfo.devices c = [] \<and> ContactInfo.deviceCount c = 0 \<and>
   ContactInfo.presence c = None \<and> profilePic c = None"
proof (induction cs arbitrary: m)
  case Nil
  then show ?case by simp
next
  case (Cons x cs)
  obtain ident plat where x: "x = (ident, plat)" by (cases x)
  let ?fresh = "\<lparr> ContactInfo.jid = ident, displayNumber = displayNumberOf ident plat,
                 contactName = displayNumberOf ident plat, data = [],
                 ContactInfo.devices = [], ContactInfo.deviceCount = 0,
                 ContactInfo.presence = None, profilePic = None, platform = plat \<rparr>"
  show ?case
  proof (cases "map_has ident m")
    case True
    with Cons x show ?thesis by simp
  next
    case False
    then have loop: "trackedContactsLoop (x # cs) m = trackedContactsLoop cs (map_set ident ?fresh m)"
      by (simp add: x)
    show ?thesis
    proof (cases "k = ident")
      case True
      have "map_get k (map_set ident ?fresh m) = Some ?fresh"
        by (simp add: True map_get_map_set)
      then have "map_get k (trackedContactsLoop cs (map_set ident ?fresh m)) = Some ?fresh"
        by (rule trackedContactsLoop_keeps)
      with Cons.prems(2) loop have "c = ?fresh" by simp
      with True show ?thesis by simp
    next
      case neq: False
      with Cons.prems(1) have "map_get k (map_set ident ?fresh m) = None"
        by (simp add: map_get_map_set)
      moreover from Cons.prems(2) loop
      have "map_get k (trackedContactsLoop cs (map_set ident ?fresh m)) = Some c" by simp
      ultimately show ?thesis by (rule Cons.IH)
    qed
  qed
qed

lemma trackedContactsLoop_appends: "\<exists>new. trackedContactsLoop cs m = m @ new"
proof (induction cs arbitrary: m)
  case Nil
  then show ?case by simp
next
  case (Cons x cs)
  obtain ident plat where x: "x = (ident, plat)" by (cases x)
  let ?fresh = "\<lparr> ContactInfo.jid = ident, displayNumber = displayNumberOf ident plat,
                 contactName = displayNumberOf ident plat, data = [],
                 ContactInfo.devices = [], ContactInfo.deviceCount = 0,
                 ContactInfo.presence = None, profilePic = None, platform = plat \<rparr>"
  show ?case
  proof (cases "map_has ident m")
    case True
    with Cons x show ?thesis by simp
  next
    case False
    then have absent: "map_get ident m = None" by (simp add: map_has_def)
    from Cons.IH obtain new
      where "trackedContactsLoop cs (map_set ident ?fresh m) = map_set ident ?fresh m @ new"
      by blast
    then have "trackedContactsLoop (x # cs) m = m @ ((ident, ?fresh) # new)"
      by (simp add: x False map_set_absent [OF absent])
    then show ?thesis ..
  qed
qed

text \<open>
  C8. The entry that \<open>contact-added\<close> stores under the event's jid has \<open>contactName\<close>
  equal to its display number (the event's number), no devices, \<open>deviceCount\<close> 0, and
  \<open>presence\<close> and \<open>profilePic\<close> null. Every entry that is in the map after a
  \<open>tracked-contacts\<close> reply and was not there before has the same defaults. An entry
  that was there before the reply is still there, unchanged, and the entries of the map
  before the reply are an initial part of the map after it.
\<close>

theorem new_contact_defaults:
  "(\<exists>c. map_get j (contacts (applyEvent now (ContactAddedEv j num plat) s)) = Some c \<and>
        displayNumber c = num \<and> contactName c = displayNumber c \<and>
        ContactInfo.devices c = [] \<and> ContactInfo.deviceCount c = 0 \<and>
        ContactInfo.presence c = None \<and> profilePic c = None) \<and>
   (\<forall>k c. map_get k (contacts s) = None \<and>
        map_get k (contacts (applyEvent now (TrackedContactsEv cs) s)) = Some c \<longrightarrow>
        contactName c = displayNumber c \<and>
        ContactInfo.devices c = [] \<and> ContactInfo.deviceCount c = 0 \<and>
        ContactInfo.presence c = None \<and> profilePic c = None) \<and>
   (\<forall>k c. map_get k (contacts s) = Some c \<longrightarrow>
        map_get k (contacts (applyEvent now (TrackedContactsEv cs) s)) = Some c) \<and>
   (\<exists>new. contacts (applyEvent now (TrackedContactsEv cs) s) = contacts s @ new)"
proof -
  have added: "\<exists>c. map_get j (contacts (applyEvent now (ContactAddedEv j num plat) s)) = Some c \<and>
        displayNumber c = num \<and> contactName c = displayNumber c \<and>
        ContactInfo.devices c = [] \<and> ContactInfo.deviceCount c = 0 \<and>
        ContactInfo.presence c = None \<and> profilePic c = None"
    by (simp add: onContactAdded_def map_get_map_set)
  have created: "\<forall>k c. map_get k (contacts s) = None \<and>
        map_get k (contacts (applyEvent now (TrackedContactsEv cs) s)) = Some c \<longrightarrow>
        contactName c = displayNumber c \<and>
        ContactInfo.devices c = [] \<and> ContactInfo.deviceCount c = 0 \<and>
        ContactInfo.presence c = None \<and> profilePic c = None"
  proof (intro allI impI)
    fix k c
    assume "map_get k (contacts s) = None \<and>
        map_get k (contacts (applyEvent now (TrackedContactsEv cs) s)) = Some c"
    then have "map_get k (contacts s) = None"
      and "map_get k (trackedContactsLoop cs (contacts s)) = Some c"
      by (simp_all add: onTrackedContacts_def)
    from trackedContactsLoop_new [OF this]
    show "contactName c = displayNumber c \<and>
        ContactInfo.devices c = [] \<and> ContactInfo.deviceCount c = 0 \<and>
        ContactInfo.presence c = None \<and> profilePic c = None"
      by simp
  qed
  have kept: "\<forall>k c. map_get k (contacts s) = Some c \<longrightarrow>
        map_get k (contacts (applyEvent now (TrackedContactsEv cs) s)) = Some c"
    by (simp add: onTrackedContacts_def trackedContactsLoop_keeps)
  have prefix: "\<exists>new. contacts (applyEvent now (TrackedContactsEv cs) s) = contacts s @ new"
    by (simp add: onTrackedContacts_def trackedContactsLoop_appends)
  from added created kept prefix show ?thesis
    by (intro conjI)
qed

theorem new_contact_defaults_witness:
  "map_get ''signal:+4917099999'' (contacts twoContacts) = None \<and>
   map_get ''signal:+4917099999''
     (contacts (applyEvent 1 (TrackedContactsEv bootstrapReply) twoContacts)) = Some dave \<and>
   contactName dave = displayNumber dave \<and> ContactInfo.devices dave = [] \<and>
   ContactInfo.deviceCount dave = 0 \<and> ContactInfo.presence dave = None \<and>
   profilePic dave = None \<and>
   map_get ''4915112345@s.whatsapp.net'' (contacts twoContacts) = Some alice \<and>
   map_get ''4915112345@s.whatsapp.net''
     (contacts (applyEvent 1 (TrackedContactsEv bootstrapReply) twoContacts)) = Some alice"
proof -
  have absent: "map_get ''signal:+4917099999'' (contacts twoContacts) = None"
    by (simp add: twoContacts_def)
  have created: "map_get ''signal:+4917099999''
     (contacts (applyEvent 1 (TrackedContactsEv bootstrapReply) twoContacts)) = Some dave"
    by (simp add: onTrackedContacts_def bootstrapReply_def twoContacts_def map_has_def
        displayNumberOf_def dave_def)
  have known: "map_get ''4915112345@s.whatsapp.net'' (contacts twoContacts) = Some alice"
    by (simp add: twoContacts_def)
  note inst = new_contact_defaults
    [where s = twoContacts and now = 1 and cs = bootstrapReply and
       j = "''signal:+4917099999''" and num = "''+4917099999''" and plat = "Some Signal"]
  from inst absent created
  have defaults: "contactName dave = displayNumber dave \<and> ContactInfo.devices dave = [] \<and>
   ContactInfo.deviceCount dave = 0 \<and> ContactInfo.presence dave = None \<and>
   profilePic dave = None"
    by blast
  from inst known
  have kept: "map_get ''4915112345@s.whatsapp.net''
     (contacts (applyEvent 1 (TrackedContactsEv bootstrapReply) twoContacts)) = Some alice"
    by blast
  from absent created defaults known kept show ?thesis
    by (intro conjI) simp_all
qed

subsection \<open>Applying an event twice\<close>

lemma trackedContactsLoop_has:
  "map_has k m \<Longrightarrow> map_has k (trackedContactsLoop cs m)"
  using trackedContactsLoop_keeps [of k m _ cs] by (auto simp: map_has_def)

lemma trackedContactsLoop_all_known:
  "\<forall>x\<in>set cs. map_has (fst x) m \<Longrightarrow> trackedContactsLoop cs m = m"
  by (induction cs arbitrary: m) auto

lemma trackedContactsLoop_covers:
  "\<forall>x\<in>set cs. map_has (fst x) (trackedContactsLoop cs m)"
proof (induction cs arbitrary: m)
  case Nil
  then show ?case by simp
next
  case (Cons x cs)
  obtain ident plat where x: "x = (ident, plat)" by (cases x)
  let ?m' = "if \<not> map_has ident m
        then map_set ident
               \<lparr> ContactInfo.jid = ident, displayNumber = displayNumberOf ident plat,
                 contactName = displayNumberOf ident plat, data = [],
                 ContactInfo.devices = [], ContactInfo.deviceCount = 0,
                 ContactInfo.presence = None, profilePic = None, platform = plat \<rparr>
               m
        else m"
  have loop: "trackedContactsLoop (x # cs) m = trackedContactsLoop cs ?m'"
    by (simp add: x)
  have "map_has ident ?m'"
    by (simp add: map_has_def map_get_map_set)
  then have "map_has ident (trackedContactsLoop cs ?m')"
    by (rule trackedContactsLoop_has)
  with Cons.IH [of ?m'] show ?case
    unfolding loop by (simp add: x)
qed

lemma onTrackedContacts_twice:
  "onTrackedContacts cs (onTrackedContacts cs s) = onTrackedContacts cs s"
  by (simp add: onTrackedContacts_def trackedContactsLoop_all_known trackedContactsLoop_covers)

lemma onContactAdded_twice:
  "onContactAdded j num plat (onContactAdded j num plat s) = onContactAdded j num plat s"
  by (simp add: onContactAdded_def map_set_map_set)

lemma onContactRemoved_twice:
  "onContactRemoved j (onContactRemoved j s) = onContactRemoved j s"
  by (simp add: onContactRemoved_def map_delete_idem)

lemma onContactName_twice:
  "onContactName j name (onContactName j name s) = onContactName j name s"
  by (cases "map_get j (contacts s)") (simp_all add: onContactName_def map_get_map_set map_set_map_set)

lemma onProfilePic_twice:
  "onProfilePic j url (onProfilePic j url s) = onProfilePic j url s"
  by (cases "map_get j (contacts s)") (simp_all add: onProfilePic_def map_get_map_set map_set_map_set)

lemma updatedContact_no_point:
  "TrackerUpdate.median u = None \<or> TrackerUpdate.devices u = None \<or> TrackerUpdate.devices u = Some []
   \<Longrightarrow> updatedContact now' u (updatedContact now u c) = updatedContact now u c"
  by (cases "TrackerUpdate.median u"; cases "TrackerUpdate.devices u";
      cases "TrackerUpdate.presence u"; cases "TrackerUpdate.deviceCount u")
     (simp_all add: updatedContact_def)

lemma updatedContact_again:
  "TrackerUpdate.median u = Some m \<Longrightarrow> TrackerUpdate.devices u = Some (d0 # rest) \<Longrightarrow>
   updatedContact now' u (updatedContact now u c) =
     (updatedContact now u c)
       \<lparr>data := data (updatedContact now u c) @
                 [newDataPoint now' m (TrackerUpdate.threshold u) d0 (d0 # rest)]\<rparr>"
  by (cases "TrackerUpdate.presence u"; cases "TrackerUpdate.deviceCount u")
     (simp_all add: updatedContact_def)

lemma onTrackerUpdate_no_point_twice:
  assumes "TrackerUpdate.median u = None \<or> TrackerUpdate.devices u = None \<or>
     TrackerUpdate.devices u = Some []"
  shows "onTrackerUpdate now' u (onTrackerUpdate now u s) = onTrackerUpdate now u s"
proof (cases "TrackerUpdate.jid u")
  case None
  then show ?thesis by (simp add: onTrackerUpdate_def)
next
  case (Some j)
  show ?thesis
  proof (cases "j = [] \<or> map_get j (contacts s) = None")
    case True
    with Some show ?thesis by (auto simp: onTrackerUpdate_def)
  next
    case False
    then obtain c where c: "map_get j (contacts s) = Some c" and j: "j \<noteq> []" by auto
    have one: "onTrackerUpdate now u s = s\<lparr>contacts := map_set j (updatedContact now u c) (contacts s)\<rparr>"
      using Some j c by (rule onTrackerUpdate_known)
    have "map_get j (contacts (onTrackerUpdate now u s)) = Some (updatedContact now u c)"
      by (simp add: one map_get_map_set)
    from onTrackerUpdate_known [OF Some j this, of now']
    show ?thesis
      by (simp add: one map_set_map_set updatedContact_no_point [OF assms])
  qed
qed

text \<open>
  C2, as stated, fails for \<open>tracker-update\<close>: the handler appends a chart point every
  time it runs, so the same event applied twice, even at the same instant, leaves two
  points where one application leaves one.
\<close>

theorem chart_point_appended_twice:
  "applyEvent 1700000000000 (TrackerUpdateEv updateForAlice)
     (applyEvent 1700000000000 (TrackerUpdateEv updateForAlice) twoContacts)
   \<noteq> applyEvent 1700000000000 (TrackerUpdateEv updateForAlice) twoContacts"
proof
  let ?j = "''4915112345@s.whatsapp.net''"
  let ?once = "onTrackerUpdate 1700000000000 updateForAlice twoContacts"
  let ?c1 = "updatedContact 1700000000000 updateForAlice alice"
  assume "applyEvent 1700000000000 (TrackerUpdateEv updateForAlice)
     (applyEvent 1700000000000 (TrackerUpdateEv updateForAlice) twoContacts)
   = applyEvent 1700000000000 (TrackerUpdateEv updateForAlice) twoContacts"
  then have same: "onTrackerUpdate 1700000000000 updateForAlice ?once = ?once"
    by simp
  have jid: "TrackerUpdate.jid updateForAlice = Some ?j" and j: "?j \<noteq> []"
    and m: "TrackerUpdate.median updateForAlice = Some 200"
    and ds: "TrackerUpdate.devices updateForAlice = Some (phone # [laptop])"
    by (simp_all add: updateForAlice_def)
  have c: "map_get ?j (contacts twoContacts) = Some alice"
    by (simp add: twoContacts_def)
  have one: "map_get ?j (contacts ?once) = Some ?c1"
    by (simp add: onTrackerUpdate_known [OF jid j c] map_get_map_set)
  have "map_get ?j (contacts (onTrackerUpdate 1700000000000 updateForAlice ?once))
      = Some (updatedContact 1700000000000 updateForAlice ?c1)"
    by (simp add: onTrackerUpdate_known [OF jid j one] map_get_map_set)
  with same one have "updatedContact 1700000000000 updateForAlice ?c1 = ?c1"
    by simp
  then have "data (updatedContact 1700000000000 updateForAlice ?c1) = data ?c1"
    by simp
  then show False
    by (simp add: updatedContact_again [OF m ds])
qed

text \<open>
  C2 (amended). Applying the same event twice in succession gives the state that
  applying it once gives, for \<open>contact-added\<close>, \<open>contact-removed\<close>, \<open>contact-name\<close>,
  \<open>profile-pic\<close>, \<open>probe-method\<close>, \<open>error\<close> and \<open>tracked-contacts\<close>, and for a
  \<open>tracker-update\<close> that records no chart point: one with no median, with no devices
  or an empty devices list, or with a jid that is missing, empty or not in the map.
  A \<open>tracker-update\<close> that does record a chart point differs the second time only in
  that: the second application appends one more point to the chart data of the
  contact and changes nothing else.
\<close>

theorem applyEvent_twice:
  "((\<forall>u. e = TrackerUpdateEv u \<longrightarrow>
        TrackerUpdate.median u = None \<or> TrackerUpdate.devices u = None \<or>
        TrackerUpdate.devices u = Some [] \<or> TrackerUpdate.jid u = None \<or>
        TrackerUpdate.jid u = Some [] \<or>
        (\<exists>j. TrackerUpdate.jid u = Some j \<and> map_get j (contacts s) = None)) \<longrightarrow>
      applyEvent now' e (applyEvent now e s) = applyEvent now e s) \<and>
   (\<forall>u j c m d0 rest.
      e = TrackerUpdateEv u \<and> TrackerUpdate.jid u = Some j \<and> j \<noteq> [] \<and>
      map_get j (contacts s) = Some c \<and> TrackerUpdate.median u = Some m \<and>
      TrackerUpdate.devices u = Some (d0 # rest) \<longrightarrow>
      (\<exists>c1. map_get j (contacts (applyEvent now e s)) = Some c1 \<and>
         applyEvent now' e (applyEvent now e s) =
           (applyEvent now e s)
             \<lparr>contacts :=
                map_set j
                  (c1\<lparr>data := data c1 @
                          [newDataPoint now' m (TrackerUpdate.threshold u) d0 (d0 # rest)]\<rparr>)
                  (contacts (applyEvent now e s))\<rparr>))"
proof -
  have same: "applyEvent now' e (applyEvent now e s) = applyEvent now e s"
    if h: "\<forall>u. e = TrackerUpdateEv u \<longrightarrow>
        TrackerUpdate.median u = None \<or> TrackerUpdate.devices u = None \<or>
        TrackerUpdate.devices u = Some [] \<or> TrackerUpdate.jid u = None \<or>
        TrackerUpdate.jid u = Some [] \<or>
        (\<exists>j. TrackerUpdate.jid u = Some j \<and> map_get j (contacts s) = None)"
  proof (cases e)
    case (TrackerUpdateEv u)
    with h consider
        (shape) "TrackerUpdate.median u = None \<or> TrackerUpdate.devices u = None \<or>
          TrackerUpdate.devices u = Some []"
      | (dropped) "TrackerUpdate.jid u = None \<or> TrackerUpdate.jid u = Some [] \<or>
          (\<exists>j. TrackerUpdate.jid u = Some j \<and> map_get j (contacts s) = None)"
      by blast
    then show ?thesis
    proof cases
      case shape
      then show ?thesis
        by (simp add: TrackerUpdateEv onTrackerUpdate_no_point_twice)
    next
      case dropped
      then have "onTrackerUpdate now u s = s"
        by (auto simp: onTrackerUpdate_def)
      moreover from dropped have "onTrackerUpdate now' u s = s"
        by (auto simp: onTrackerUpdate_def)
      ultimately show ?thesis by (simp add: TrackerUpdateEv)
    qed
  qed (simp_all add: onProfilePic_twice onContactName_twice onContactAdded_twice
        onContactRemoved_twice onTrackedContacts_twice onError_def onProbeMethod_def)
  have again: "\<exists>c1. map_get j (contacts (applyEvent now e s)) = Some c1 \<and>
         applyEvent now' e (applyEvent now e s) =
           (applyEvent now e s)
             \<lparr>contacts :=
                map_set j
                  (c1\<lparr>data := data c1 @
                          [newDataPoint now' m (TrackerUpdate.threshold u) d0 (d0 # rest)]\<rparr>)
                  (contacts (applyEvent now e s))\<rparr>"
    if h: "e = TrackerUpdateEv u \<and> TrackerUpdate.jid u = Some j \<and> j \<noteq> [] \<and>
      map_get j (contacts s) = Some c \<and> TrackerUpdate.median u = Some m \<and>
      TrackerUpdate.devices u = Some (d0 # rest)" for u j c m d0 rest
  proof -
    from h have e: "e = TrackerUpdateEv u" and jid: "TrackerUpdate.jid u = Some j"
      and j: "j \<noteq> []" and c: "map_get j (contacts s) = Some c"
      and m: "TrackerUpdate.median u = Some m"
      and ds: "TrackerUpdate.devices u = Some (d0 # rest)"
      by simp_all
    have one: "onTrackerUpdate now u s = s\<lparr>contacts := map_set j (updatedContact now u c) (contacts s)\<rparr>"
      using jid j c by (rule onTrackerUpdate_known)
    have here: "map_get j (contacts (onTrackerUpdate now u s)) = Some (updatedContact now u c)"
      by (simp add: one map_get_map_set)
    have two: "onTrackerUpdate now' u (onTrackerUpdate now u s) =
        (onTrackerUpdate now u s)
          \<lparr>contacts := map_set j (updatedContact now' u (updatedContact now u c))
                         (contacts (onTrackerUpdate now u s))\<rparr>"
      using jid j here by (rule onTrackerUpdate_known)
    show ?thesis
      using here two by (simp add: e updatedContact_again [OF m ds])
  qed
  from same again show ?thesis by blast
qed

theorem applyEvent_twice_witness:
  "TrackerUpdate.devices presenceForAlice = Some [] \<and>
   applyEvent 2 (TrackerUpdateEv presenceForAlice)
     (applyEvent 1 (TrackerUpdateEv presenceForAlice) twoContacts)
     = applyEvent 1 (TrackerUpdateEv presenceForAlice) twoContacts \<and>
   TrackerUpdate.jid updateForAlice = Some ''4915112345@s.whatsapp.net'' \<and>
   map_get ''4915112345@s.whatsapp.net'' (contacts twoContacts) = Some alice \<and>
   TrackerUpdate.median updateForAlice = Some 200 \<and>
   TrackerUpdate.devices updateForAlice = Some [phone, laptop] \<and>
   (\<exists>c1. map_get ''4915112345@s.whatsapp.net''
           (contacts (applyEvent 1 (TrackerUpdateEv updateForAlice) twoContacts)) = Some c1 \<and>
      applyEvent 2 (TrackerUpdateEv updateForAlice)
        (applyEvent 1 (TrackerUpdateEv updateForAlice) twoContacts) =
        (applyEvent 1 (TrackerUpdateEv updateForAlice) twoContacts)
          \<lparr>contacts :=
             map_set ''4915112345@s.whatsapp.net''
               (c1\<lparr>data := data c1 @
                       [newDataPoint 2 200 (TrackerUpdate.threshold updateForAlice) phone
                          [phone, laptop]]\<rparr>)
               (contacts (applyEvent 1 (TrackerUpdateEv updateForAlice) twoContacts))\<rparr>)"
proof -
  have empty: "TrackerUpdate.devices presenceForAlice = Some []"
    by (simp add: presenceForAlice_def)
  then have shape: "\<forall>u. TrackerUpdateEv presenceForAlice = TrackerUpdateEv u \<longrightarrow>
        TrackerUpdate.median u = None \<or> TrackerUpdate.devices u = None \<or>
        TrackerUpdate.devices u = Some [] \<or> TrackerUpdate.jid u = None \<or>
        TrackerUpdate.jid u = Some [] \<or>
        (\<exists>j. TrackerUpdate.jid u = Some j \<and> map_get j (contacts twoContacts) = None)"
    by simp
  have jid: "TrackerUpdate.jid updateForAlice = Some ''4915112345@s.whatsapp.net''"
    and m: "TrackerUpdate.median updateForAlice = Some 200"
    and ds: "TrackerUpdate.devices updateForAlice = Some [phone, laptop]"
    by (simp_all add: updateForAlice_def)
  have j: "''4915112345@s.whatsapp.net'' \<noteq> []"
    by simp
  have c: "map_get ''4915112345@s.whatsapp.net'' (contacts twoContacts) = Some alice"
    by (simp add: twoContacts_def)
  from applyEvent_twice [of "TrackerUpdateEv presenceForAlice" twoContacts 2 1] shape
  have once: "applyEvent 2 (TrackerUpdateEv presenceForAlice)
     (applyEvent 1 (TrackerUpdateEv presenceForAlice) twoContacts)
     = applyEvent 1 (TrackerUpdateEv presenceForAlice) twoContacts"
    by blast
  from applyEvent_twice [of "TrackerUpdateEv updateForAlice" twoContacts 2 1] jid j c m ds
  have more: "\<exists>c1. map_get ''4915112345@s.whatsapp.net''
           (contacts (applyEvent 1 (TrackerUpdateEv updateForAlice) twoContacts)) = Some c1 \<and>
      applyEvent 2 (TrackerUpdateEv updateForAlice)
        (applyEvent 1 (TrackerUpdateEv updateForAlice) twoContacts) =
        (applyEvent 1 (TrackerUpdateEv updateForAlice) twoContacts)
          \<lparr>contacts :=
             map_set ''4915112345@s.whatsapp.net''
               (c1\<lparr>data := data c1 @
                       [newDataPoint 2 200 (TrackerUpdate.threshold updateForAlice) phone
                          [phone, laptop]]\<rparr>)
               (contacts (applyEvent 1 (TrackerUpdateEv updateForAlice) twoContacts))\<rparr>"
    by blast
  from empty once jid c m ds more show ?thesis
    by (intro conjI)
qed

section \<open>Properties of the RTT tracker's statistics\<close>

text \<open>
  C4. The median that \<open>currentStats()\<close> reports is 25 for the window 10, 20, 30, 40 (the
  mean of the two middle values after ascending sort) and 5 for the window 5; for the
  empty window \<open>currentStats()\<close> reports no data, not a statistics record with a
  numeric default.
\<close>

theorem median_examples:
  "map_option Stats.median (currentStats [10, 20, 30, 40]) = Some 25 \<and>
   map_option Stats.median (currentStats [5]) = Some 5 \<and>
   currentStats [] = None"
  by (simp add: currentStats_def medianOf_def)

section \<open>Properties of the bootstrap script\<close>

text \<open>
  C10. When \<open>docker info\<close> fails, the script exits with status 0 and \<open>docker info\<close> is
  the only command it has run: the container is not inspected, started or created.
  The script exits with status 1 exactly when \<open>docker info\<close> succeeds, the inspection or
  the start of the container fails, and the creation attempted after that fails too;
  in every other case it exits with status 0.
\<close>

theorem docker_unavailable_exit:
  "(env docker_info = Threw \<longrightarrow> init_signal hostVolPath env = (0, [docker_info])) \<and>
   (fst (init_signal hostVolPath env) = 1 \<longleftrightarrow>
      env docker_info = Returned \<and>
      (env docker_inspect = Threw \<or> env docker_start = Threw) \<and>
      env (cmd hostVolPath) = Threw) \<and>
   (fst (init_signal hostVolPath env) = 0 \<or> fst (init_signal hostVolPath env) = 1)"
  by (cases "env docker_info"; cases "env docker_inspect"; cases "env docker_start";
      cases "env (cmd hostVolPath)")
     (simp_all add: init_signal_def startOrCreate_def inspectAndStart_def)

theorem docker_unavailable_exit_witness:
  "noDocker docker_info = Threw \<and>
   init_signal ''/home/user/.local/share/signal-api'' noDocker = (0, [''docker info'']) \<and>
   fst (init_signal ''/home/user/.local/share/signal-api'' createFails) = 1"
proof -
  have h: "noDocker docker_info = Threw" by (simp add: noDocker_def)
  have g: "createFails docker_info = Returned \<and>
      (createFails docker_inspect = Threw \<or> createFails docker_start = Threw) \<and>
      createFails (cmd ''/home/user/.local/share/signal-api'') = Threw"
    by (simp add: createFails_def docker_info_def docker_inspect_def cmd_def)
  from docker_unavailable_exit [of noDocker "''/home/user/.local/share/signal-api''"] h
  have a: "init_signal ''/home/user/.local/share/signal-api'' noDocker = (0, [''docker info''])"
    by (simp add: docker_info_def)
  from docker_unavailable_exit [of createFails "''/home/user/.local/share/signal-api''"] g
  have b: "fst (init_signal ''/home/user/.local/share/signal-api'' createFails) = 1"
    by blast
  from h a b show ?thesis by (intro conjI)
qed

end
